theory Spec2Isabelle
  imports Complex_Main "HOL-Library.AList" "HOL-Library.Sublist"
begin

section \<open>Python values\<close>

text \<open>
  The pipeline of \<^verbatim>\<open>Handy-Recon.py\<close> passes plain Python dictionaries between its
  stages. A dictionary is an association list in insertion order (what a Python
  \<^verbatim>\<open>dict\<close> iterates in); \<^verbatim>\<open>d[k]\<close> is \<open>map_of d k\<close> and the assignment
  \<^verbatim>\<open>d[k] = v\<close> is \<open>AList.update k v d\<close>.

  A \<^verbatim>\<open>str\<close> is a list of characters. Isabelle characters are the code points below 256,
  so the model covers every Latin-1 username. A Python \<^verbatim>\<open>float\<close> is modelled by the real
  number it denotes: comparisons of floats are exact on these numbers, the rounding of
  arithmetic results is not modelled.
\<close>

datatype pyval =
    PNone
  | PBool bool
  | PInt int
  | PFloat real
  | PStr string
  | PList "pyval list"
  | PDict "(string \<times> pyval) list"

type_synonym pydict = "(string \<times> pyval) list"

text \<open>An instance of \<^verbatim>\<open>Exception\<close>: its class name and what \<^verbatim>\<open>str(e)\<close> returns.\<close>

datatype py_exception = PyException (exc_class: string) (exc_str: string)

subsection \<open>String operations\<close>

text \<open>
  \<^verbatim>\<open>c.isdigit()\<close>: below 256 the characters with the Unicode property
  \<^verbatim>\<open>Numeric_Type=Digit\<close> or \<^verbatim>\<open>Decimal\<close> are \<^verbatim>\<open>0\<close> to \<^verbatim>\<open>9\<close> and the superscripts
  U+00B2, U+00B3 and U+00B9.
\<close>

definition isdigit :: "char \<Rightarrow> bool" where
  "isdigit c =
     (let n = (of_char c :: nat)
      in (48 \<le> n \<and> n \<le> 57) \<or> n = 178 \<or> n = 179 \<or> n = 185)"

text \<open>\<^verbatim>\<open>x in s\<close> for strings: \<open>x\<close> occurs in \<open>s\<close> as a contiguous run.\<close>

fun str_contains :: "string \<Rightarrow> string \<Rightarrow> bool" where
  "str_contains x [] = (x = [])"
| "str_contains x (c # cs) = (take (length x) (c # cs) = x \<or> str_contains x cs)"

text \<open>\<^verbatim>\<open>any(...)\<close> and \<^verbatim>\<open>sum(...)\<close> over a generator of booleans.\<close>

fun py_any :: "bool list \<Rightarrow> bool" where
  "py_any [] = False"
| "py_any (b # bs) = (if b then True else py_any bs)"

fun py_sum_bools :: "bool list \<Rightarrow> int" where
  "py_sum_bools [] = 0"
| "py_sum_bools (b # bs) = (if b then 1 else 0) + py_sum_bools bs"

text \<open>\<^verbatim>\<open>str(n)\<close> for an integer, as the f-strings use it.\<close>

definition digit_char :: "nat \<Rightarrow> char" where
  "digit_char d = ''0123456789'' ! d"

function str_of_nat :: "nat \<Rightarrow> string" where
  "str_of_nat n =
     (if n < 10 then [digit_char n]
      else str_of_nat (n div 10) @ [digit_char (n mod 10)])"
  by pat_completeness auto
termination
  by (relation "measure id") auto

declare str_of_nat.simps [simp del]

definition str_of_int :: "int \<Rightarrow> string" where
  "str_of_int i = (if i < 0 then CHR ''-'' # str_of_nat (nat (- i)) else str_of_nat (nat i))"

text \<open>\<^verbatim>\<open>int(x)\<close> for a float: truncation towards zero.\<close>

definition int_of_float :: "real \<Rightarrow> int" where
  "int_of_float x = (if 0 \<le> x then \<lfloor>x\<rfloor> else \<lceil>x\<rceil>)"

subsection \<open>Float literals\<close>

text \<open>
  The literals \<^verbatim>\<open>0.3\<close>, \<^verbatim>\<open>0.7\<close>, \<^verbatim>\<open>0.8\<close> and \<^verbatim>\<open>0.95\<close> are not binary fractions:
  each denotes the nearest IEEE-754 binary64 number, given here exactly. The other
  float literals of the program (\<^verbatim>\<open>0.0\<close>, \<^verbatim>\<open>1.0\<close>, \<^verbatim>\<open>3.0\<close>, \<^verbatim>\<open>100.0\<close>) are exact.
\<close>

definition float_0_3 :: real where
  "float_0_3 = 5404319552844595 / 2 ^ 54"

definition float_0_7 :: real where
  "float_0_7 = 3152519739159347 / 2 ^ 52"

definition float_0_8 :: real where
  "float_0_8 = 3602879701896397 / 2 ^ 52"

definition float_0_95 :: real where
  "float_0_95 = 4278419646001971 / 2 ^ 52"

section \<open>The environment: random generator and clock\<close>

text \<open>
  The module-level generator of \<^verbatim>\<open>random\<close> and the system clock are state that the
  program reads and advances. The generator is a sequence of raw outputs and a position;
  every library call consumes one raw output and is a deterministic function of it, so
  that any value the library may return is returned for some sequence. The clock is a
  sequence of readings: \<^verbatim>\<open>time.time()\<close> and \<^verbatim>\<open>datetime.now().isoformat()\<close> each take
  the next one.
\<close>

record world =
  rng_raw :: "nat \<Rightarrow> nat"
  rng_pos :: nat
  clock_time :: "nat \<Rightarrow> real"
  clock_iso :: "nat \<Rightarrow> string"
  clock_pos :: nat

definition next_raw :: "world \<Rightarrow> nat \<times> world" where
  "next_raw w = (rng_raw w (rng_pos w), w\<lparr>rng_pos := Suc (rng_pos w)\<rparr>)"

text \<open>\<^verbatim>\<open>random.random()\<close>: a multiple of \<open>2\<^sup>-\<^sup>5\<^sup>3\<close> in \<open>[0, 1)\<close>.\<close>

definition random_random :: "world \<Rightarrow> real \<times> world" where
  "random_random w = (let (r, w1) = next_raw w in (real (r mod 2 ^ 53) / 2 ^ 53, w1))"

text \<open>\<^verbatim>\<open>random.uniform(a, b)\<close> is \<^verbatim>\<open>a + (b - a) * self.random()\<close>.\<close>

definition uniform :: "real \<Rightarrow> real \<Rightarrow> world \<Rightarrow> real \<times> world" where
  "uniform a b w = (let (u, w1) = random_random w in (a + (b - a) * u, w1))"

text \<open>\<^verbatim>\<open>_randbelow(n)\<close> for \<open>0 < n\<close>: some number below \<open>n\<close>.\<close>

definition randbelow :: "nat \<Rightarrow> world \<Rightarrow> nat \<times> world" where
  "randbelow n w = (let (r, w1) = next_raw w in (r mod n, w1))"

text \<open>
  \<^verbatim>\<open>random.randint(a, b)\<close> is \<^verbatim>\<open>a + _randbelow(b - a + 1)\<close>; every call of the program
  has constant arguments with \<open>a \<le> b\<close>.
\<close>

definition randint :: "int \<Rightarrow> int \<Rightarrow> world \<Rightarrow> int \<times> world" where
  "randint a b w = (let (r, w1) = randbelow (nat (b - a + 1)) w in (a + int r, w1))"

text \<open>
  \<^verbatim>\<open>random.choice(seq)\<close> is \<^verbatim>\<open>seq[_randbelow(len(seq))]\<close>; the program calls it on a
  literal list of three strings.
\<close>

definition choice :: "'a list \<Rightarrow> world \<Rightarrow> 'a \<times> world" where
  "choice seq w = (let (i, w1) = randbelow (length seq) w in (seq ! i, w1))"

text \<open>
  \<^verbatim>\<open>random.sample(population, k)\<close> for a population of at most 21 elements: the library
  copies the population into a pool and, \<open>k\<close> times, picks a position below the number
  of elements left, takes the element there and moves the last element left into its
  place. It raises \<^verbatim>\<open>ValueError\<close> unless \<open>0 \<le> k \<le> len(population)\<close>.
\<close>

fun sample_pool :: "'a list \<Rightarrow> nat \<Rightarrow> nat \<Rightarrow> world \<Rightarrow> 'a list \<times> world" where
  "sample_pool pool n 0 w = ([], w)"
| "sample_pool pool n (Suc k) w =
     (let (j, w1) = randbelow n w;
          (rest, w2) = sample_pool (pool[j := pool ! (n - 1)]) (n - 1) k w1
      in (pool ! j # rest, w2))"

definition sample :: "'a list \<Rightarrow> int \<Rightarrow> world \<Rightarrow> (py_exception + 'a list) \<times> world" where
  "sample population k w =
     (if k < 0 \<or> int (length population) < k
      then (Inl (PyException ''ValueError'' ''Sample larger than population or is negative''), w)
      else (let (xs, w1) = sample_pool population (length population) (nat k) w
            in (Inr xs, w1)))"

definition time_time :: "world \<Rightarrow> real \<times> world" where
  "time_time w = (clock_time w (clock_pos w), w\<lparr>clock_pos := Suc (clock_pos w)\<rparr>)"

definition now_isoformat :: "world \<Rightarrow> string \<times> world" where
  "now_isoformat w = (clock_iso w (clock_pos w), w\<lparr>clock_pos := Suc (clock_pos w)\<rparr>)"

section \<open>Pattern analysis\<close>

text \<open>The \<^verbatim>\<open>features\<close> dictionary of \<^verbatim>\<open>brain_analyze\<close>.\<close>

definition features :: "string \<Rightarrow> pydict" where
  "features username =
     [(''length'', PInt (int (length username))),
      (''has_digits'', PBool (py_any (map isdigit username))),
      (''has_underscore'', PBool (CHR ''_'' \<in> set username)),
      (''has_dot'', PBool (CHR ''.'' \<in> set username))]"

text \<open>The \<^verbatim>\<open>if/elif\<close> chain of \<^verbatim>\<open>brain_analyze\<close> that chooses \<^verbatim>\<open>pattern_type\<close>.\<close>

definition pattern_type :: "string \<Rightarrow> string" where
  "pattern_type username =
     (if py_any (map (\<lambda>x. str_contains x username) [''admin'', ''test'', ''user''])
      then ''generic''
      else if length username < 5 then ''short''
      else if py_sum_bools (map isdigit username) > 2 then ''numeric''
      else ''personal'')"

text \<open>
  The classification as the specification words it, for comparison with the code:
  a blocklist substring occurs, else fewer than five characters, else more than two
  digit characters, else personal.
\<close>

definition spec_pattern_type :: "string \<Rightarrow> string" where
  "spec_pattern_type username =
     (if sublist ''admin'' username \<or> sublist ''test'' username \<or> sublist ''user'' username
      then ''generic''
      else if length username < 5 then ''short''
      else if length (filter isdigit username) > 2 then ''numeric''
      else ''personal'')"

text \<open>
  \<^verbatim>\<open>brain_analyze\<close>: the dictionary literal is evaluated in order, the random confidence
  before the timestamp. Logging and \<^verbatim>\<open>asyncio.sleep\<close> change no value and are left out,
  here and below.
\<close>

definition brain_analyze :: "string \<Rightarrow> world \<Rightarrow> pydict \<times> world" where
  "brain_analyze username w =
     (let (confidence, w1) = uniform float_0_7 float_0_95 w;
          (timestamp, w2) = now_isoformat w1
      in ([(''pattern_type'', PStr (pattern_type username)),
           (''features'', PDict (features username)),
           (''confidence'', PFloat confidence),
           (''timestamp'', PStr timestamp)], w2))"

section \<open>Platform prober\<close>

text \<open>
  What \<^verbatim>\<open>self.session.get(url, timeout=10, allow_redirects=False)\<close> does is decided by
  the network: either a response arrives, with its status code and URL, or the request
  raises an exception (a timeout, a DNS or connection failure, a malformed response).
\<close>

datatype transport =
    Response (status: int) (response_url: string)
  | Failure py_exception

text \<open>
  The object of class \<^verbatim>\<open>OSINTSystem\<close>: the HTTP session, seen as the answer of the
  network to each URL, the unused \<^verbatim>\<open>results\<close> dictionary and the platform table, a
  dictionary from platform name to URL template.
\<close>

record osint_system =
  session :: "string \<Rightarrow> transport"
  results :: pydict
  platforms :: "(string \<times> string) list"

definition init_system :: "(string \<Rightarrow> transport) \<Rightarrow> osint_system" where
  "init_system sess =
     \<lparr>session = sess,
      results = [],
      platforms =
        [(''github'', ''https://github.com/{}''),
         (''twitter'', ''https://twitter.com/{}''),
         (''instagram'', ''https://instagram.com/{}''),
         (''reddit'', ''https://reddit.com/user/{}''),
         (''linkedin'', ''https://linkedin.com/in/{}'')]\<rparr>"

text \<open>
  A coroutine either returns a value (\<open>Inr\<close>) or raises an exception (\<open>Inl\<close>).
  \<^verbatim>\<open>check_platform\<close> wraps the request in \<^verbatim>\<open>try ... except Exception\<close>.
\<close>

definition check_platform :: "osint_system \<Rightarrow> string \<Rightarrow> string \<Rightarrow> py_exception + pydict" where
  "check_platform self platform url =
     (case session self url of
        Response st rurl \<Rightarrow>
          Inr [(''status'', PStr (if st = 200 then ''found'' else ''not_found'')),
               (''status_code'', PInt st),
               (''url'', PStr rurl),
               (''platform'', PStr platform)]
      | Failure e \<Rightarrow>
          Inr [(''status'', PStr ''error''),
               (''error'', PStr (exc_str e)),
               (''platform'', PStr platform)])"

section \<open>Scan coordinator\<close>

text \<open>
  \<^verbatim>\<open>url.format(username)\<close> on a template whose only braces are one \<^verbatim>\<open>{}\<close> field, as
  every template of the platform table is: the username replaces the field.
\<close>

fun format_url :: "string \<Rightarrow> string \<Rightarrow> string" where
  "format_url [] username = []"
| "format_url (c # cs) username =
     (if c = CHR ''{'' \<and> take 1 cs = ''}'' then username @ drop 1 cs
      else c # format_url cs username)"

definition url_template :: "string \<Rightarrow> bool" where
  "url_template t \<longleftrightarrow>
     str_contains ''{}'' t \<and>
     length (filter (\<lambda>c. c = CHR ''{'') t) = 1 \<and>
     length (filter (\<lambda>c. c = CHR ''}'') t) = 1"

text \<open>
  A well-formed platform table: a dictionary (no name twice) of such templates.
\<close>

definition wf_platforms :: "(string \<times> string) list \<Rightarrow> bool" where
  "wf_platforms ps \<longleftrightarrow> distinct (map fst ps) \<and> list_all url_template (map snd ps)"

text \<open>
  An element of the list that \<^verbatim>\<open>asyncio.gather\<close> returns: the value a task returned or,
  with \<^verbatim>\<open>return_exceptions=True\<close>, the exception object it raised.
\<close>

datatype pyobj = Value pydict | ExcObj py_exception

fun as_object :: "py_exception + pydict \<Rightarrow> pyobj" where
  "as_object (Inl e) = ExcObj e"
| "as_object (Inr v) = Value v"

fun first_raised :: "(py_exception + pydict) list \<Rightarrow> py_exception option" where
  "first_raised [] = None"
| "first_raised (Inl e # ts) = Some e"
| "first_raised (Inr v # ts) = first_raised ts"

text \<open>
  \<^verbatim>\<open>await asyncio.gather(*tasks, return_exceptions=...)\<close> on tasks that have finished as
  given: with the flag every outcome becomes an element of the result, in the order
  of the tasks; without it an exception of a task is raised to the awaiting caller
  (the order of the list standing in for the order of completion).
\<close>

definition gather :: "bool \<Rightarrow> (py_exception + pydict) list \<Rightarrow> py_exception + pyobj list" where
  "gather return_exceptions tasks =
     (if return_exceptions then Inr (map as_object tasks)
      else (case first_raised tasks of
              Some e \<Rightarrow> Inl e
            | None \<Rightarrow> Inr (map as_object tasks)))"

text \<open>
  The loop that fills \<^verbatim>\<open>results\<close> in \<^verbatim>\<open>muscle_scan\<close>: what either branch of
  its \<^verbatim>\<open>isinstance(result, Exception)\<close> test stores, and the assignment.
\<close>

fun outcome_entry :: "pyobj \<Rightarrow> pyval" where
  "outcome_entry (ExcObj e) = PDict [(''status'', PStr ''error''), (''error'', PStr (exc_str e))]"
| "outcome_entry (Value v) = PDict v"

definition record_result :: "pydict \<Rightarrow> string \<times> pyobj \<Rightarrow> pydict" where
  "record_result res = (\<lambda>(platform, result). AList.update platform (outcome_entry result) res)"

text \<open>
  \<^verbatim>\<open>muscle_scan\<close>, with the method it calls for each platform as a parameter:
  \<^verbatim>\<open>self.check_platform\<close> is looked up on the object at each call, and the coordinator
  has its own branch for a task that raised.
\<close>

definition muscle_scan_with ::
  "(string \<Rightarrow> string \<Rightarrow> py_exception + pydict) \<Rightarrow> osint_system \<Rightarrow> string \<Rightarrow> pydict \<Rightarrow>
     world \<Rightarrow> (py_exception + pydict) \<times> world" where
  "muscle_scan_with probe self username brain_data w =
     (let tasks = map (\<lambda>(platform, url). probe platform (format_url url username))
                    (platforms self)
      in case gather True tasks of
           Inl e \<Rightarrow> (Inl e, w)
         | Inr platform_results \<Rightarrow>
             (let res = foldl record_result []
                          (zip (map fst (platforms self)) platform_results);
                  (scan_duration, w1) = uniform 1 3 w
              in (Inr [(''username'', PStr username),
                       (''platform_results'', PDict res),
                       (''scan_duration'', PFloat scan_duration),
                       (''total_checked'', PInt (int (length (platforms self))))], w1)))"

definition muscle_scan ::
  "osint_system \<Rightarrow> string \<Rightarrow> pydict \<Rightarrow> world \<Rightarrow> (py_exception + pydict) \<times> world" where
  "muscle_scan self = muscle_scan_with (check_platform self) self"

section \<open>Intelligence aggregator\<close>

definition breaches :: "pyval list" where
  "breaches =
     [PDict [(''breach'', PStr ''Collection1''), (''date'', PStr ''2019-01-15''),
             (''data_compromised'', PStr ''emails, passwords'')],
      PDict [(''breach'', PStr ''AntiPublic''), (''date'', PStr ''2017-03-10''),
             (''data_compromised'', PStr ''usernames, IPs'')]]"

text \<open>
  \<^verbatim>\<open>simulate_breach_check\<close>: the conditional expression draws \<^verbatim>\<open>random.random()\<close>
  first and only then, if it exceeds 0.7, the sample size and the sample.
\<close>

definition simulate_breach_check :: "string \<Rightarrow> world \<Rightarrow> (py_exception + pydict) \<times> world" where
  "simulate_breach_check username w =
     (let (breaches_found, w1) = randint 0 2 w;
          (r, w2) = random_random w1;
          (details, w3) =
            (if r > float_0_7
             then (let (k, w') = randint 0 2 w2 in sample breaches k w')
             else (Inr [], w2))
      in case details of
           Inl e \<Rightarrow> (Inl e, w3)
         | Inr breach_details \<Rightarrow>
             (let (last_checked, w4) = now_isoformat w3
              in (Inr [(''breaches_found'', PInt breaches_found),
                       (''breach_details'', PList breach_details),
                       (''last_checked'', PStr last_checked)], w4)))"

definition simulate_social_analysis :: "string \<Rightarrow> world \<Rightarrow> pydict \<times> world" where
  "simulate_social_analysis username w =
     (let (activity_level, w1) = choice [''low'', ''medium'', ''high''] w;
          (account_age, w2) = randint 1 60 w1;
          (influence_score, w3) = uniform 0 100 w2
      in ([(''activity_level'', PStr activity_level),
           (''account_age'', PInt account_age),
           (''influence_score'', PFloat influence_score)], w3))"

definition api_gather_intel ::
  "string \<Rightarrow> pydict \<Rightarrow> world \<Rightarrow> (py_exception + pydict) \<times> world" where
  "api_gather_intel username scan_data w =
     (let (breach, w1) = simulate_breach_check username w
      in case breach of
           Inl e \<Rightarrow> (Inl e, w1)
         | Inr breach_data \<Rightarrow>
             (let (social_analysis, w2) = simulate_social_analysis username w1;
                  (reputation_score, w3) = uniform 0 1 w2
              in (Inr [(''username'', PStr username),
                       (''breach_data'', PDict breach_data),
                       (''social_analysis'', PDict social_analysis),
                       (''reputation_score'', PFloat reputation_score)], w3)))"

section \<open>Correlator\<close>

text \<open>The conditional expression that buckets the risk score.\<close>

definition risk_level :: "real \<Rightarrow> string" where
  "risk_level risk_score =
     (if risk_score < float_0_3 then ''low''
      else if risk_score < float_0_7 then ''medium''
      else ''high'')"

text \<open>
  \<^verbatim>\<open>correlate_intelligence\<close> numbers its data sources into \<^verbatim>\<open>all_data\<close> and then does
  not read it.
\<close>

definition correlate_intelligence :: "string \<Rightarrow> pydict list \<Rightarrow> world \<Rightarrow> pydict \<times> world" where
  "correlate_intelligence username data_sources w =
     (let all_data = foldl (\<lambda>d (i, data). AList.update (''source_'' @ str_of_nat i) (PDict data) d)
                       [] (enumerate 0 data_sources);
          (risk_score, w1) = uniform 0 1 w;
          (confidence, w2) = uniform float_0_8 float_0_95 w1
      in ([(''risk_assessment'',
             PDict [(''score'', PFloat risk_score),
                    (''level'', PStr (risk_level risk_score)),
                    (''factors'', PList [PStr ''multiple_platforms'', PStr ''pattern_analysis'',
                                         PStr ''breach_data''])]),
           (''confidence'', PFloat confidence),
           (''recommendations'',
             PList [PStr ''Monitor social media activity'',
                    PStr ''Check for additional aliases'',
                    PStr ''Verify breach exposure details''])], w2))"

section \<open>Investigation orchestrator\<close>

text \<open>
  \<^verbatim>\<open>orchestrate_investigation\<close> awaits the four stages in order. It has no
  \<^verbatim>\<open>try\<close>: an exception of a stage ends the call and reaches the caller as it is.
\<close>

definition orchestrate_investigation ::
  "osint_system \<Rightarrow> string \<Rightarrow> world \<Rightarrow> (py_exception + pydict) \<times> world" where
  "orchestrate_investigation self username w =
     (let (start_time, w0) = time_time w;
          (brain_data, w1) = brain_analyze username w0;
          (scan, w2) = muscle_scan self username brain_data w1
      in case scan of
           Inl e \<Rightarrow> (Inl e, w2)
         | Inr scan_data \<Rightarrow>
             (let (api, w3) = api_gather_intel username scan_data w2
              in case api of
                   Inl e \<Rightarrow> (Inl e, w3)
                 | Inr api_data \<Rightarrow>
                     (let (final_analysis, w4) =
                            correlate_intelligence username [brain_data, scan_data, api_data] w3;
                          (end_time, w5) = time_time w4;
                          total_time = end_time - start_time;
                          (id_time, w6) = time_time w5;
                          (id_random, w7) = randint 1000 9999 w6;
                          (timestamp, w8) = now_isoformat w7
                      in (Inr [(''operation_id'',
                                 PStr (''op_'' @ str_of_int (int_of_float id_time) @ ''_''
                                         @ str_of_int id_random)),
                               (''username'', PStr username),
                               (''brain_analysis'', PDict brain_data),
                               (''scan_results'', PDict scan_data),
                               (''api_intelligence'', PDict api_data),
                               (''final_analysis'', PDict final_analysis),
                               (''total_duration'', PFloat total_time),
                               (''timestamp'', PStr timestamp)], w8))))"

section \<open>Populated values\<close>

text \<open>
  A value is populated when \<^verbatim>\<open>None\<close> occurs nowhere in it, at any depth of its lists
  and dictionaries.
\<close>

fun populated :: "pyval \<Rightarrow> bool" where
  "populated PNone = False"
| "populated (PList xs) = list_all populated xs"
| "populated (PDict d) = list_all populated (map snd d)"
| "populated v = True"

section \<open>Values used in the statements\<close>

text \<open>
  What the scan stores for a platform table: for each platform, in order, the entry of
  the outcome of its probe.
\<close>

definition scan_entries ::
  "(string \<Rightarrow> string \<Rightarrow> py_exception + pydict) \<Rightarrow> (string \<times> string) list \<Rightarrow> string \<Rightarrow> pydict" where
  "scan_entries probe ps username =
     map (\<lambda>(platform, url).
            (platform, outcome_entry (as_object (probe platform (format_url url username))))) ps"

text \<open>
  A concrete environment: the generator puts out 0, 1, 2, ..., the clock starts at
  1700000000 seconds and advances one second per reading.
\<close>

definition test_world :: world where
  "test_world =
     \<lparr>rng_raw = (\<lambda>i. i), rng_pos = 0,
      clock_time = (\<lambda>i. 1700000000 + real i),
      clock_iso = (\<lambda>i. ''2026-01-01T00:00:00''),
      clock_pos = 0\<rparr>"

text \<open>A network that is down: every request times out.\<close>

definition outage :: "string \<Rightarrow> transport" where
  "outage url = Failure (PyException ''TimeoutError'' ''timed out'')"

text \<open>A network where only the GitHub profile exists.\<close>

definition github_only :: "string \<Rightarrow> transport" where
  "github_only url =
     (if url = ''https://github.com/john_doe'' then Response 200 url else Response 404 url)"

text \<open>
  A probe method that raises for GitHub, outside the prober's own conversion, and is
  \<^verbatim>\<open>check_platform\<close> elsewhere.
\<close>

definition faulty_probe :: "osint_system \<Rightarrow> string \<Rightarrow> string \<Rightarrow> py_exception + pydict" where
  "faulty_probe self platform url =
     (if platform = ''github'' then Inl (PyException ''RuntimeError'' ''boom'')
      else check_platform self platform url)"

section \<open>Helper lemmas\<close>

lemma str_contains_sublist: "str_contains x s = sublist x s"
proof (induction s)
  case Nil
  show ?case by auto
next
  case (Cons c cs)
  have "take (length x) (c # cs) = x \<longleftrightarrow> prefix x (c # cs)"
    by (metis append_eq_conv_conj prefix_def)
  with Cons show ?case
    by (simp add: sublist_Cons_right)
qed

lemma py_sum_bools_filter: "py_sum_bools (map P xs) = int (length (filter P xs))"
  by (induction xs) auto

lemma py_any_set: "py_any bs = (True \<in> set bs)"
  by (induction bs) auto

lemma pattern_type_spec: "pattern_type username = spec_pattern_type username"
  by (simp add: pattern_type_def spec_pattern_type_def str_contains_sublist py_sum_bools_filter)


subsection \<open>URL templates\<close>

text \<open>On a template with one \<^verbatim>\<open>{}\<close> field the username replaces the field.\<close>

lemma str_contains_braces:
  "str_contains ''{}'' s \<Longrightarrow> CHR ''{'' \<in> set s \<and> CHR ''}'' \<in> set s"
proof (induction s)
  case Nil
  then show ?case by simp
next
  case (Cons c cs)
  show ?case
  proof (cases "take 2 (c # cs) = ''{}''")
    case True
    then show ?thesis by (cases cs) auto
  next
    case False
    with Cons.prems have "str_contains ''{}'' cs" by auto
    with Cons.IH show ?thesis by simp
  qed
qed

lemma format_url_template:
  assumes "url_template t"
  shows "\<exists>pre suf. t = pre @ ''{}'' @ suf \<and> format_url t username = pre @ username @ suf"
  using assms
proof (induction t)
  case Nil
  then show ?case by (simp add: url_template_def)
next
  case (Cons c cs)
  show ?case
  proof (cases "c = CHR ''{'' \<and> take 1 cs = ''}''")
    case True
    then have "c # cs = [] @ ''{}'' @ drop 1 cs"
      by (cases cs) auto
    moreover from True have "format_url (c # cs) username = [] @ username @ drop 1 cs"
      by simp
    ultimately show ?thesis by blast
  next
    case False
    then have "take 2 (c # cs) \<noteq> ''{}''"
      by (cases cs) auto
    with Cons.prems have sub: "str_contains ''{}'' cs"
      by (auto simp add: url_template_def)
    then have "filter (\<lambda>c. c = CHR ''{'') cs \<noteq> []" "filter (\<lambda>c. c = CHR ''}'') cs \<noteq> []"
      using str_contains_braces [OF sub] by (simp_all add: filter_empty_conv)
    then have pos: "0 < length (filter (\<lambda>c. c = CHR ''{'') cs)"
      "0 < length (filter (\<lambda>c. c = CHR ''}'') cs)"
      by simp_all
    from Cons.prems have
      "length (filter (\<lambda>c. c = CHR ''{'') (c # cs)) = 1"
      "length (filter (\<lambda>c. c = CHR ''}'') (c # cs)) = 1"
      by (simp_all add: url_template_def)
    with pos have "length (filter (\<lambda>c. c = CHR ''{'') cs) = 1"
      "length (filter (\<lambda>c. c = CHR ''}'') cs) = 1"
      by (simp_all split: if_splits)
    with sub have "url_template cs"
      by (simp add: url_template_def)
    with Cons.IH obtain pre suf where
      "cs = pre @ ''{}'' @ suf" "format_url cs username = pre @ username @ suf"
      by blast
    moreover from False have "format_url (c # cs) username = c # format_url cs username"
      by auto
    ultimately have "c # cs = (c # pre) @ ''{}'' @ suf"
      "format_url (c # cs) username = (c # pre) @ username @ suf"
      by simp_all
    then show ?thesis by blast
  qed
qed

subsection \<open>The scan stores one entry per platform\<close>

lemma record_result_pair:
  "record_result res (platform, result) = AList.update platform (outcome_entry result) res"
  by (simp add: record_result_def)

lemma foldl_record_result:
  "distinct ks \<Longrightarrow> length ks = length os \<Longrightarrow> set ks \<inter> fst ` set acc = {} \<Longrightarrow>
     foldl record_result acc (zip ks os) = acc @ zip ks (map outcome_entry os)"
proof (induction ks os arbitrary: acc rule: list_induct2')
  case (4 k ks ob os)
  have upd: "AList.update k (outcome_entry ob) acc = acc @ [(k, outcome_entry ob)]"
    using 4(4) by (induction acc) auto
  have "foldl record_result (acc @ [(k, outcome_entry ob)]) (zip ks os)
          = (acc @ [(k, outcome_entry ob)]) @ zip ks (map outcome_entry os)"
    using 4(2,3,4) by (intro 4(1)) auto
  then show ?case
    by (simp add: record_result_pair upd)
qed simp_all

lemma zip_scan_entries:
  "zip (map fst ps)
       (map outcome_entry (map as_object
          (map (\<lambda>(platform, url). probe platform (format_url url username)) ps)))
     = scan_entries probe ps username"
  by (induction ps) (auto simp: scan_entries_def)

lemma muscle_scan_with_result:
  assumes "distinct (map fst (platforms self))"
  shows "muscle_scan_with probe self username brain_data w =
           (Inr [(''username'', PStr username),
                 (''platform_results'', PDict (scan_entries probe (platforms self) username)),
                 (''scan_duration'', PFloat (fst (uniform 1 3 w))),
                 (''total_checked'', PInt (int (length (platforms self))))],
            snd (uniform 1 3 w))"
proof -
  let ?os = "map as_object
               (map (\<lambda>(platform, url). probe platform (format_url url username)) (platforms self))"
  have "foldl record_result [] (zip (map fst (platforms self)) ?os)
          = [] @ zip (map fst (platforms self)) (map outcome_entry ?os)"
    using assms by (intro foldl_record_result) auto
  then have "foldl record_result [] (zip (map fst (platforms self)) ?os)
          = scan_entries probe (platforms self) username"
    by (simp only: zip_scan_entries append_Nil)
  then show ?thesis
    by (simp add: muscle_scan_with_def gather_def split_beta)
qed

lemma scan_entries_keys: "map fst (scan_entries probe ps username) = map fst ps"
  by (induction ps) (auto simp: scan_entries_def)

lemma scan_entries_lookup:
  assumes "distinct (map fst ps)" and "(platform, url) \<in> set ps"
  shows "map_of (scan_entries probe ps username) platform
           = Some (outcome_entry (as_object (probe platform (format_url url username))))"
  using assms by (induction ps) (auto simp: scan_entries_def rev_image_eqI)

lemma prober_entries_shape:
  assumes "(platform, v) \<in> set (scan_entries (check_platform self) ps username)"
  shows "\<exists>d st. v = PDict d \<and> map_of d ''platform'' = Some (PStr platform) \<and>
           map_of d ''status'' = Some (PStr st) \<and> st \<in> {''found'', ''not_found'', ''error''}"
proof -
  from assms obtain url where
    v: "v = outcome_entry (as_object (check_platform self platform (format_url url username)))"
    by (auto simp: scan_entries_def)
  show ?thesis
    unfolding v
    by (cases "session self (format_url url username)") (simp_all add: check_platform_def)
qed

lemma features_spec:
  "features username =
     [(''length'', PInt (int (length username))),
      (''has_digits'', PBool (\<exists>c \<in> set username. isdigit c)),
      (''has_underscore'', PBool (CHR ''_'' \<in> set username)),
      (''has_dot'', PBool (CHR ''.'' \<in> set username))]"
  by (auto simp add: features_def py_any_set)

lemma float_literals:
  "\<bar>float_0_3 - 3 / 10\<bar> \<le> 1 / 2 ^ 55" "\<bar>float_0_7 - 7 / 10\<bar> \<le> 1 / 2 ^ 54"
  "\<bar>float_0_8 - 8 / 10\<bar> \<le> 1 / 2 ^ 54" "\<bar>float_0_95 - 95 / 100\<bar> \<le> 1 / 2 ^ 54"
  by (simp_all add: float_0_3_def float_0_7_def float_0_8_def float_0_95_def)

lemma check_platform_returns: "check_platform self platform url \<noteq> Inl e"
  by (cases "session self url") (simp_all add: check_platform_def)

lemma wf_platforms_init: "wf_platforms (platforms (init_system sess))"
  by (simp add: wf_platforms_def init_system_def url_template_def)

subsection \<open>Every stage returns\<close>

lemma randint_range:
  "a \<le> b \<Longrightarrow> a \<le> fst (randint a b w) \<and> fst (randint a b w) \<le> b"
proof -
  assume ab: "a \<le> b"
  have "rng_raw w (rng_pos w) mod nat (b - a + 1) < nat (b - a + 1)"
    using ab by (intro mod_less_divisor) simp
  then have "int (rng_raw w (rng_pos w) mod nat (b - a + 1)) < b - a + 1"
    using ab by linarith
  then show ?thesis
    by (simp add: randint_def randbelow_def next_raw_def split_beta)
qed

lemma sample_returns:
  "0 \<le> k \<Longrightarrow> k \<le> int (length population) \<Longrightarrow>
     \<exists>xs w'. sample population k w = (Inr xs, w')"
  by (simp add: sample_def split_beta)

lemma simulate_breach_check_returns:
  "\<exists>d w'. simulate_breach_check username w = (Inr d, w') \<and>
     map fst d = [''breaches_found'', ''breach_details'', ''last_checked'']"
proof -
  let ?w2 = "snd (random_random (snd (randint 0 2 w)))"
  have "0 \<le> fst (randint 0 2 ?w2) \<and> fst (randint 0 2 ?w2) \<le> int (length breaches)"
    using randint_range [of 0 2 ?w2] by (simp add: breaches_def)
  then obtain xs w' where "sample breaches (fst (randint 0 2 ?w2)) (snd (randint 0 2 ?w2)) = (Inr xs, w')"
    using sample_returns by blast
  then show ?thesis
    by (simp add: simulate_breach_check_def split_beta)
qed

lemma api_gather_intel_returns:
  "\<exists>d w'. api_gather_intel username scan_data w = (Inr d, w') \<and>
     map fst d = [''username'', ''breach_data'', ''social_analysis'', ''reputation_score'']"
proof -
  obtain d w' where "simulate_breach_check username w = (Inr d, w')"
    using simulate_breach_check_returns by blast
  then show ?thesis
    by (simp add: api_gather_intel_def split_beta)
qed

lemma brain_analyze_result:
  "\<exists>c t w'. brain_analyze username w =
     ([(''pattern_type'', PStr (pattern_type username)),
       (''features'', PDict (features username)),
       (''confidence'', PFloat c),
       (''timestamp'', PStr t)], w')"
  by (simp add: brain_analyze_def split_beta)

lemma correlate_intelligence_keys:
  "map fst (fst (correlate_intelligence username data_sources w))
     = [''risk_assessment'', ''confidence'', ''recommendations'']"
  by (simp add: correlate_intelligence_def split_beta Let_def)

lemma orchestrate_investigation_result:
  assumes "wf_platforms (platforms self)"
  shows "\<exists>oid brain scan api final dur ts w'.
     orchestrate_investigation self username w =
       (Inr [(''operation_id'', PStr oid),
             (''username'', PStr username),
             (''brain_analysis'', PDict brain),
             (''scan_results'', PDict scan),
             (''api_intelligence'', PDict api),
             (''final_analysis'', PDict final),
             (''total_duration'', PFloat dur),
             (''timestamp'', PStr ts)], w') \<and>
     map fst brain = [''pattern_type'', ''features'', ''confidence'', ''timestamp''] \<and>
     map_of brain ''pattern_type'' = Some (PStr (pattern_type username)) \<and>
     map fst scan = [''username'', ''platform_results'', ''scan_duration'', ''total_checked''] \<and>
     map fst api = [''username'', ''breach_data'', ''social_analysis'', ''reputation_score''] \<and>
     map fst final = [''risk_assessment'', ''confidence'', ''recommendations'']"
proof -
  let ?w0 = "snd (time_time w)"
  obtain c t w1 where b: "brain_analyze username ?w0 =
     ([(''pattern_type'', PStr (pattern_type username)),
       (''features'', PDict (features username)),
       (''confidence'', PFloat c),
       (''timestamp'', PStr t)], w1)"
    using brain_analyze_result by blast
  let ?brain = "[(''pattern_type'', PStr (pattern_type username)),
       (''features'', PDict (features username)),
       (''confidence'', PFloat c),
       (''timestamp'', PStr t)]"
  have d: "distinct (map fst (platforms self))"
    using assms by (simp add: wf_platforms_def)
  note s = muscle_scan_with_result [OF d, of "check_platform self" username ?brain w1]
  let ?scan = "[(''username'', PStr username),
                 (''platform_results'', PDict (scan_entries (check_platform self) (platforms self) username)),
                 (''scan_duration'', PFloat (fst (uniform 1 3 w1))),
                 (''total_checked'', PInt (int (length (platforms self))))]"
  obtain api w3 where a: "api_gather_intel username ?scan (snd (uniform 1 3 w1)) = (Inr api, w3)"
    and ak: "map fst api = [''username'', ''breach_data'', ''social_analysis'', ''reputation_score'']"
    using api_gather_intel_returns [of username ?scan "snd (uniform 1 3 w1)"] by auto
  show ?thesis
    by (simp add: orchestrate_investigation_def muscle_scan_def split_beta b s a ak
          correlate_intelligence_keys Let_def)
qed

lemma pattern_type_empty: "pattern_type [] = ''short''"
  by (simp add: pattern_type_def)

subsection \<open>Every stage output is populated\<close>

lemma sample_pool_all:
  "k \<le> n \<Longrightarrow> n \<le> length pool \<Longrightarrow> list_all P pool \<Longrightarrow>
     list_all P (fst (sample_pool pool n k w))"
proof (induction k arbitrary: pool n w)
  case 0
  then show ?case by simp
next
  case (Suc k)
  let ?j = "fst (randbelow n w)"
  from Suc.prems have n: "0 < n" by simp
  then have j: "?j < n"
    by (simp add: randbelow_def next_raw_def split_beta)
  with Suc.prems have pj: "P (pool ! ?j)" and pl: "P (pool ! (n - 1))"
    by (simp_all add: list_all_length)
  have all: "list_all P (pool[?j := pool ! (n - 1)])"
    using set_update_subset_insert [of pool ?j "pool ! (n - 1)"] pl Suc.prems(3)
    by (auto simp: list_all_iff)
  have "list_all P (fst (sample_pool (pool[?j := pool ! (n - 1)]) (n - 1) k (snd (randbelow n w))))"
    using Suc.prems all by (intro Suc.IH) simp_all
  with pj show ?case
    by (simp add: split_beta)
qed

lemma sample_all:
  "sample population k w = (Inr xs, w') \<Longrightarrow> list_all P population \<Longrightarrow> list_all P xs"
  using sample_pool_all [of "nat k" "length population" population P w]
  by (auto simp add: sample_def split_beta split: if_splits)

lemma populated_breaches: "list_all populated breaches"
  by (simp add: breaches_def)

lemma simulate_breach_check_populated:
  "\<exists>d w'. simulate_breach_check username w = (Inr d, w') \<and>
     map fst d = [''breaches_found'', ''breach_details'', ''last_checked''] \<and>
     populated (PDict d)"
proof -
  let ?w2 = "snd (random_random (snd (randint 0 2 w)))"
  have "0 \<le> fst (randint 0 2 ?w2) \<and> fst (randint 0 2 ?w2) \<le> int (length breaches)"
    using randint_range [of 0 2 ?w2] by (simp add: breaches_def)
  then obtain xs w' where s: "sample breaches (fst (randint 0 2 ?w2)) (snd (randint 0 2 ?w2)) = (Inr xs, w')"
    using sample_returns by blast
  then have "list_all populated xs"
    using sample_all populated_breaches by blast
  with s show ?thesis
    by (simp add: simulate_breach_check_def split_beta)
qed

lemma simulate_social_analysis_populated:
  "populated (PDict (fst (simulate_social_analysis username w))) \<and>
   map fst (fst (simulate_social_analysis username w))
     = [''activity_level'', ''account_age'', ''influence_score'']"
  by (simp add: simulate_social_analysis_def split_beta)

lemma api_gather_intel_populated:
  "\<exists>d w'. api_gather_intel username scan_data w = (Inr d, w') \<and>
     map fst d = [''username'', ''breach_data'', ''social_analysis'', ''reputation_score''] \<and>
     map_of d ''username'' = Some (PStr username) \<and>
     populated (PDict d)"
proof -
  obtain d w' where "simulate_breach_check username w = (Inr d, w')" "populated (PDict d)"
    using simulate_breach_check_populated by blast
  then show ?thesis
    using simulate_social_analysis_populated [of username w']
    by (simp add: api_gather_intel_def split_beta)
qed

lemma brain_analyze_populated:
  "populated (PDict (fst (brain_analyze username w))) \<and>
   map fst (fst (brain_analyze username w))
     = [''pattern_type'', ''features'', ''confidence'', ''timestamp'']"
  by (simp add: brain_analyze_def split_beta features_def)

lemma scan_entries_populated:
  "list_all populated (map snd (scan_entries (check_platform self) ps username))"
proof -
  have "populated (outcome_entry (as_object (check_platform self platform url)))" for platform url
    by (cases "session self url") (simp_all add: check_platform_def)
  then show ?thesis
    by (induction ps) (auto simp: scan_entries_def)
qed

lemma muscle_scan_populated:
  assumes "wf_platforms (platforms self)"
  shows "\<exists>d w'. muscle_scan self username brain_data w = (Inr d, w') \<and>
     map fst d = [''username'', ''platform_results'', ''scan_duration'', ''total_checked''] \<and>
     populated (PDict d)"
  using assms scan_entries_populated [of self "platforms self" username]
  by (simp add: muscle_scan_def muscle_scan_with_result wf_platforms_def)

lemma correlate_intelligence_populated:
  "populated (PDict (fst (correlate_intelligence username data_sources w)))"
  by (simp add: correlate_intelligence_def split_beta Let_def)

section \<open>Scan completeness\<close>

text \<open>
  Claim C1. For every username, every well-formed platform table and whatever each probe
  does (return an outcome or raise), \<^verbatim>\<open>muscle_scan\<close> returns a report whose
  \<^verbatim>\<open>platform_results\<close> has exactly the configured platform names as keys, each once and
  in the order of the table; the entry stored under a name is the outcome of that
  platform's own probe (what it returned, or the error entry for what it raised); and
  \<^verbatim>\<open>total_checked\<close> is the number of configured platforms.
\<close>

theorem scan_completeness:
  assumes "wf_platforms (platforms self)"
  shows "\<exists>report res w'.
           muscle_scan_with probe self username brain_data w = (Inr report, w') \<and>
           map_of report ''platform_results'' = Some (PDict res) \<and>
           map fst res = map fst (platforms self) \<and>
           distinct (map fst res) \<and>
           length res = length (platforms self) \<and>
           (\<forall>(platform, url) \<in> set (platforms self).
              map_of res platform =
                Some (outcome_entry (as_object (probe platform (format_url url username))))) \<and>
           map_of report ''total_checked'' = Some (PInt (int (length (platforms self))))"
proof -
  have d: "distinct (map fst (platforms self))"
    using assms by (simp add: wf_platforms_def)
  let ?res = "scan_entries probe (platforms self) username"
  have "\<forall>(platform, url) \<in> set (platforms self).
          map_of ?res platform =
            Some (outcome_entry (as_object (probe platform (format_url url username))))"
    using scan_entries_lookup [OF d] by blast
  moreover have "length ?res = length (platforms self)"
    by (simp add: scan_entries_def)
  ultimately show ?thesis
    using d by (simp add: muscle_scan_with_result scan_entries_keys)
qed

text \<open>
  The five configured platforms during an outage: every probe errors, and each of the
  five entries is the error outcome of its own platform.
\<close>

theorem scan_completeness_witness:
  "wf_platforms (platforms (init_system outage)) \<and>
   (\<exists>report res w'.
      muscle_scan (init_system outage) ''john_doe'' [] test_world = (Inr report, w') \<and>
      map_of report ''platform_results'' = Some (PDict res) \<and>
      map fst res = [''github'', ''twitter'', ''instagram'', ''reddit'', ''linkedin''] \<and>
      map_of res ''github'' =
        Some (PDict [(''status'', PStr ''error''), (''error'', PStr ''timed out''),
                     (''platform'', PStr ''github'')]) \<and>
      map_of res ''twitter'' =
        Some (PDict [(''status'', PStr ''error''), (''error'', PStr ''timed out''),
                     (''platform'', PStr ''twitter'')]) \<and>
      map_of res ''instagram'' =
        Some (PDict [(''status'', PStr ''error''), (''error'', PStr ''timed out''),
                     (''platform'', PStr ''instagram'')]) \<and>
      map_of res ''reddit'' =
        Some (PDict [(''status'', PStr ''error''), (''error'', PStr ''timed out''),
                     (''platform'', PStr ''reddit'')]) \<and>
      map_of res ''linkedin'' =
        Some (PDict [(''status'', PStr ''error''), (''error'', PStr ''timed out''),
                     (''platform'', PStr ''linkedin'')]) \<and>
      map_of report ''total_checked'' = Some (PInt 5))"
proof -
  have wf: "wf_platforms (platforms (init_system outage))"
    by (simp add: wf_platforms_def init_system_def url_template_def)
  show ?thesis
    using wf scan_completeness [OF wf, of "check_platform (init_system outage)"
                                 "''john_doe''" "[]" test_world]
    by (auto simp add: muscle_scan_def init_system_def check_platform_def outage_def)
qed

section \<open>The prober never raises\<close>

text \<open>
  Claim C2. For every platform, URL and behaviour of the network, \<^verbatim>\<open>check_platform\<close>
  returns an outcome and never raises: status code 200 gives status \<^verbatim>\<open>found\<close>, any
  other status code \<^verbatim>\<open>not_found\<close>, and an exception of the request gives \<^verbatim>\<open>error\<close>
  with the text of the exception as detail.
\<close>

theorem check_platform_never_raises:
  "\<exists>outcome.
     check_platform self platform url = Inr outcome \<and>
     map_of outcome ''platform'' = Some (PStr platform) \<and>
     (\<forall>rurl. session self url = Response 200 rurl \<longrightarrow>
        map_of outcome ''status'' = Some (PStr ''found'')) \<and>
     (\<forall>st rurl. session self url = Response st rurl \<and> st \<noteq> 200 \<longrightarrow>
        map_of outcome ''status'' = Some (PStr ''not_found'')) \<and>
     (\<forall>e. session self url = Failure e \<longrightarrow>
        map_of outcome ''status'' = Some (PStr ''error'') \<and>
        map_of outcome ''error'' = Some (PStr (exc_str e)))"
  by (cases "session self url") (simp_all add: check_platform_def)

text \<open>A profile that exists, one that does not, and a request that times out.\<close>

theorem check_platform_never_raises_witness:
  "(\<exists>outcome.
      check_platform (init_system github_only) ''github'' ''https://github.com/john_doe'' = Inr outcome \<and>
      map_of outcome ''status'' = Some (PStr ''found'')) \<and>
   (\<exists>outcome.
      check_platform (init_system github_only) ''reddit'' ''https://reddit.com/user/john_doe'' = Inr outcome \<and>
      map_of outcome ''status'' = Some (PStr ''not_found'')) \<and>
   (\<exists>outcome.
      check_platform (init_system outage) ''github'' ''https://github.com/john_doe'' = Inr outcome \<and>
      map_of outcome ''status'' = Some (PStr ''error'') \<and>
      map_of outcome ''error'' = Some (PStr ''timed out''))"
  using check_platform_never_raises [of "init_system github_only" "''github''" "''https://github.com/john_doe''"]
        check_platform_never_raises [of "init_system github_only" "''reddit''" "''https://reddit.com/user/john_doe''"]
        check_platform_never_raises [of "init_system outage" "''github''" "''https://github.com/john_doe''"]
  by (auto simp add: init_system_def github_only_def outage_def)

section \<open>Fault absorption\<close>

text \<open>
  Claim C3. If the probe task of a configured platform raises an exception, the scan
  still returns a report (the exception does not reach the caller of \<^verbatim>\<open>muscle_scan\<close>),
  and the report maps that platform to an outcome with status \<^verbatim>\<open>error\<close> and the text of
  the exception.
\<close>

theorem scan_absorbs_faults:
  assumes "wf_platforms (platforms self)"
    and "(platform, url) \<in> set (platforms self)"
    and "probe platform (format_url url username) = Inl e"
  shows "\<exists>report res w'.
           muscle_scan_with probe self username brain_data w = (Inr report, w') \<and>
           map_of report ''platform_results'' = Some (PDict res) \<and>
           map_of res platform =
             Some (PDict [(''status'', PStr ''error''), (''error'', PStr (exc_str e))])"
  using assms
  by (simp add: wf_platforms_def muscle_scan_with_result scan_entries_lookup)

text \<open>The probe of GitHub raises \<^verbatim>\<open>RuntimeError('boom')\<close>.\<close>

theorem scan_absorbs_faults_witness:
  "wf_platforms (platforms (init_system outage)) \<and>
   (''github'', ''https://github.com/{}'') \<in> set (platforms (init_system outage)) \<and>
   faulty_probe (init_system outage) ''github'' (format_url ''https://github.com/{}'' ''john_doe'')
     = Inl (PyException ''RuntimeError'' ''boom'') \<and>
   (\<exists>report res w'.
      muscle_scan_with (faulty_probe (init_system outage)) (init_system outage) ''john_doe'' [] test_world
        = (Inr report, w') \<and>
      map_of report ''platform_results'' = Some (PDict res) \<and>
      map_of res ''github'' = Some (PDict [(''status'', PStr ''error''), (''error'', PStr ''boom'')]))"
proof -
  have wf: "wf_platforms (platforms (init_system outage))"
    by (simp add: wf_platforms_def init_system_def url_template_def)
  have mem: "(''github'', ''https://github.com/{}'') \<in> set (platforms (init_system outage))"
    by (simp add: init_system_def)
  have raised: "faulty_probe (init_system outage) ''github'' (format_url ''https://github.com/{}'' ''john_doe'')
     = Inl (PyException ''RuntimeError'' ''boom'')"
    by (simp add: faulty_probe_def)
  show ?thesis
    using wf mem raised
      scan_absorbs_faults [where self = "init_system outage" and platform = "''github''"
        and url = "''https://github.com/{}''" and probe = "faulty_probe (init_system outage)"
        and username = "''john_doe''" and e = "PyException ''RuntimeError'' ''boom''"
        and brain_data = "[]" and w = test_world]
    by simp
qed

section \<open>Shape of the outcome entries\<close>



section \<open>Pattern classification\<close>

text \<open>
  Claim C4. The \<^verbatim>\<open>pattern_type\<close> that \<^verbatim>\<open>brain_analyze\<close> returns is the classification
  of the specification (a blocklist substring gives \<^verbatim>\<open>generic\<close>, else a length below 5
  gives \<^verbatim>\<open>short\<close>, else more than two digits give \<^verbatim>\<open>numeric\<close>, else \<^verbatim>\<open>personal\<close>);
  it and the features depend on the username only, not on the generator or the clock;
  and the four example usernames are classified as the specification lists them.
\<close>

theorem pattern_classification:
  "map_of (fst (brain_analyze username w)) ''pattern_type'' = Some (PStr (spec_pattern_type username)) \<and>
   map_of (fst (brain_analyze username w)) ''features'' = Some (PDict (features username)) \<and>
   map_of (fst (brain_analyze username w)) ''pattern_type''
     = map_of (fst (brain_analyze username w')) ''pattern_type'' \<and>
   map_of (fst (brain_analyze username w)) ''features''
     = map_of (fst (brain_analyze username w')) ''features'' \<and>
   pattern_type ''admin123'' = ''generic'' \<and>
   pattern_type ''ab'' = ''short'' \<and>
   pattern_type ''a1b2c3d4'' = ''numeric'' \<and>
   pattern_type ''john_doe'' = ''personal''"
proof -
  have "pattern_type ''admin123'' = ''generic''" "pattern_type ''ab'' = ''short''"
    by (simp_all add: pattern_type_def)
  moreover have "pattern_type ''a1b2c3d4'' = ''numeric''" "pattern_type ''john_doe'' = ''personal''"
    by (simp_all add: pattern_type_def isdigit_def)
  ultimately show ?thesis
    by (simp add: brain_analyze_def split_beta pattern_type_spec)
qed

text \<open>A username with a blocklist substring, a dot and digits.\<close>

theorem pattern_classification_witness:
  "map_of (fst (brain_analyze ''test.99'' test_world)) ''pattern_type'' = Some (PStr ''generic'') \<and>
   map_of (fst (brain_analyze ''test.99'' test_world)) ''features''
     = Some (PDict [(''length'', PInt 7), (''has_digits'', PBool True),
                    (''has_underscore'', PBool False), (''has_dot'', PBool True)])"
  using pattern_classification [of "''test.99''" test_world test_world]
  by (simp add: spec_pattern_type_def sublist_code features_def isdigit_def)

section \<open>Risk level bucketing\<close>

text \<open>
  Claim C5. The level is \<^verbatim>\<open>low\<close> exactly when the score is below 0.3, \<^verbatim>\<open>medium\<close>
  exactly when it is at least 0.3 and below 0.7, and \<^verbatim>\<open>high\<close> exactly when it is at
  least 0.7, the thresholds being the floats that the literals denote; the scores 0.3
  and 0.7 themselves are \<^verbatim>\<open>medium\<close> and \<^verbatim>\<open>high\<close>. The \<^verbatim>\<open>level\<close> in the result of
  \<^verbatim>\<open>correlate_intelligence\<close> is the level of the \<^verbatim>\<open>score\<close> next to it, which lies in
  \<open>[0, 1)\<close>.
\<close>

theorem risk_level_bucketing:
  "(risk_level score = ''low'' \<longleftrightarrow> score < float_0_3) \<and>
   (risk_level score = ''medium'' \<longleftrightarrow> float_0_3 \<le> score \<and> score < float_0_7) \<and>
   (risk_level score = ''high'' \<longleftrightarrow> float_0_7 \<le> score) \<and>
   risk_level float_0_3 = ''medium'' \<and>
   risk_level float_0_7 = ''high'' \<and>
   (\<exists>ra s. map_of (fst (correlate_intelligence username data_sources w)) ''risk_assessment''
              = Some (PDict ra) \<and>
           map_of ra ''score'' = Some (PFloat s) \<and>
           map_of ra ''level'' = Some (PStr (risk_level s)) \<and> 0 \<le> s \<and> s < 1)"
proof -
  have lt: "float_0_3 < float_0_7"
    by (simp add: float_0_3_def float_0_7_def)
  have "0 \<le> fst (uniform 0 1 w) \<and> fst (uniform 0 1 w) < 1"
    by (simp add: uniform_def random_random_def next_raw_def split_beta)
  then show ?thesis using lt
    by (auto simp add: risk_level_def correlate_intelligence_def split_beta Let_def)
qed

text \<open>The scores 0.1, 0.5 and 0.9 of the specification.\<close>

theorem risk_level_bucketing_witness:
  "risk_level (1 / 10) = ''low'' \<and> risk_level (1 / 2) = ''medium'' \<and> risk_level (9 / 10) = ''high''"
  using risk_level_bucketing [of "1 / 10"] risk_level_bucketing [of "1 / 2"]
        risk_level_bucketing [of "9 / 10"]
  by (simp add: float_0_3_def float_0_7_def)

section \<open>The aggregator ignores the scan report\<close>

text \<open>
  Claim C8. For a fixed username and a fixed state of the generator and the clock,
  \<^verbatim>\<open>api_gather_intel\<close> returns the same report, and leaves the same state, for any two
  scan reports.
\<close>

theorem api_gather_intel_ignores_scan:
  "api_gather_intel username scan_data w = api_gather_intel username scan_data' w"
  by (simp add: api_gather_intel_def)

text \<open>An empty scan report and one with a field, in the same environment.\<close>

theorem api_gather_intel_ignores_scan_witness:
  "api_gather_intel ''john_doe'' [] test_world
     = api_gather_intel ''john_doe'' [(''total_checked'', PInt 5)] test_world"
  using api_gather_intel_ignores_scan [of "''john_doe''" "[]" test_world "[(''total_checked'', PInt 5)]"]
  by simp

section \<open>The investigation returns a complete report\<close>

text \<open>
  Claim C6. For every username, every behaviour of the network and every state of the
  generator and the clock, \<^verbatim>\<open>orchestrate_investigation\<close> returns a complete report:
  it has the eight fields; \<^verbatim>\<open>None\<close> occurs nowhere in it, at any depth; its
  \<^verbatim>\<open>username\<close> is the username asked for; its four stage fields are what the four
  stages returned, each run on the outputs of the stages before it and each with all
  its own fields; and the operation identifier, the duration and the timestamp are the
  ones computed from the clock and the generator. So the first alternative of the claim
  always holds: no stage can raise on a string (the sample size drawn for
  \<^verbatim>\<open>random.sample\<close> is within the population) and failures of probes are outcomes of
  the scan, hence no partial report and no failure arises.
\<close>

theorem investigation_complete_report:
  assumes "wf_platforms (platforms self)"
  shows "\<exists>report brain scan api final w1 w2 w3 w4 w'.
     orchestrate_investigation self username w = (Inr report, w') \<and>
     map fst report = [''operation_id'', ''username'', ''brain_analysis'', ''scan_results'',
                       ''api_intelligence'', ''final_analysis'', ''total_duration'', ''timestamp''] \<and>
     populated (PDict report) \<and>
     map_of report ''username'' = Some (PStr username) \<and>
     brain_analyze username (snd (time_time w)) = (brain, w1) \<and>
     map_of report ''brain_analysis'' = Some (PDict brain) \<and>
     map fst brain = [''pattern_type'', ''features'', ''confidence'', ''timestamp''] \<and>
     muscle_scan self username brain w1 = (Inr scan, w2) \<and>
     map_of report ''scan_results'' = Some (PDict scan) \<and>
     map fst scan = [''username'', ''platform_results'', ''scan_duration'', ''total_checked''] \<and>
     api_gather_intel username scan w2 = (Inr api, w3) \<and>
     map_of report ''api_intelligence'' = Some (PDict api) \<and>
     map fst api = [''username'', ''breach_data'', ''social_analysis'', ''reputation_score''] \<and>
     correlate_intelligence username [brain, scan, api] w3 = (final, w4) \<and>
     map_of report ''final_analysis'' = Some (PDict final) \<and>
     map fst final = [''risk_assessment'', ''confidence'', ''recommendations''] \<and>
     map_of report ''total_duration'' = Some (PFloat (fst (time_time w4) - fst (time_time w))) \<and>
     map_of report ''operation_id'' =
       Some (PStr (''op_'' @ str_of_int (int_of_float (fst (time_time (snd (time_time w4)))))
                    @ ''_'' @ str_of_int (fst (randint 1000 9999 (snd (time_time (snd (time_time w4)))))))) \<and>
     map_of report ''timestamp'' =
       Some (PStr (fst (now_isoformat
                         (snd (randint 1000 9999 (snd (time_time (snd (time_time w4)))))))))"
proof -
  let ?w0 = "snd (time_time w)"
  obtain brain w1 where b: "brain_analyze username ?w0 = (brain, w1)"
    by (cases "brain_analyze username ?w0")
  have bp: "populated (PDict brain)"
    "map fst brain = [''pattern_type'', ''features'', ''confidence'', ''timestamp'']"
    using brain_analyze_populated [of username ?w0] b by simp_all
  obtain scan w2 where s: "muscle_scan self username brain w1 = (Inr scan, w2)"
    and sp: "map fst scan = [''username'', ''platform_results'', ''scan_duration'', ''total_checked'']"
      "populated (PDict scan)"
    using muscle_scan_populated [OF assms, of username brain w1] by auto
  obtain api w3 where a: "api_gather_intel username scan w2 = (Inr api, w3)"
    and ap: "map fst api = [''username'', ''breach_data'', ''social_analysis'', ''reputation_score'']"
      "populated (PDict api)"
    using api_gather_intel_populated [of username scan w2] by auto
  obtain final w4 where c: "correlate_intelligence username [brain, scan, api] w3 = (final, w4)"
    by (cases "correlate_intelligence username [brain, scan, api] w3")
  have cp: "populated (PDict final)"
    "map fst final = [''risk_assessment'', ''confidence'', ''recommendations'']"
    using correlate_intelligence_populated [of username "[brain, scan, api]" w3]
      correlate_intelligence_keys [of username "[brain, scan, api]" w3] c by simp_all
  show ?thesis
    using bp sp ap cp
    by (simp add: orchestrate_investigation_def split_beta b s a c)
qed

text \<open>
  The configured system, on a network where only the GitHub profile exists: the report
  for \<^verbatim>\<open>john_doe\<close> in the concrete environment.
\<close>

theorem investigation_complete_report_witness:
  "wf_platforms (platforms (init_system github_only)) \<and>
   (\<exists>report brain scan res github w'.
      orchestrate_investigation (init_system github_only) ''john_doe'' test_world = (Inr report, w') \<and>
      map fst report = [''operation_id'', ''username'', ''brain_analysis'', ''scan_results'',
                        ''api_intelligence'', ''final_analysis'', ''total_duration'', ''timestamp''] \<and>
      populated (PDict report) \<and>
      map_of report ''username'' = Some (PStr ''john_doe'') \<and>
      map_of report ''operation_id'' = Some (PStr ''op_1700000004_1010'') \<and>
      map_of report ''total_duration'' = Some (PFloat 3) \<and>
      map_of report ''brain_analysis'' = Some (PDict brain) \<and>
      map_of brain ''pattern_type'' = Some (PStr ''personal'') \<and>
      map_of report ''scan_results'' = Some (PDict scan) \<and>
      map_of scan ''platform_results'' = Some (PDict res) \<and>
      map_of res ''github'' = Some (PDict github) \<and>
      map_of github ''status'' = Some (PStr ''found''))"
proof -
  have wf: "wf_platforms (platforms (init_system github_only))"
    by (simp add: wf_platforms_def init_system_def url_template_def)
  have d: "distinct (map fst (platforms (init_system github_only)))"
    using wf by (simp add: wf_platforms_def)
  show ?thesis
    using wf investigation_complete_report [OF wf, of "''john_doe''" test_world]
    apply (simp add: muscle_scan_def muscle_scan_with_result [OF d] split_beta)
    apply (simp add: api_gather_intel_def simulate_breach_check_def simulate_social_analysis_def
     brain_analyze_def correlate_intelligence_def split_beta Let_def
     uniform_def random_random_def randint_def randbelow_def choice_def next_raw_def
     time_time_def now_isoformat_def test_world_def sample_def float_0_7_def int_of_float_def
     str_of_int_def str_of_nat.simps digit_char_def pattern_type_def isdigit_def
     scan_entries_def init_system_def check_platform_def github_only_def)
    apply auto
    done
qed

section \<open>The empty username is not rejected\<close>

text \<open>
  Claim C10. \<^verbatim>\<open>orchestrate_investigation\<close> on the empty username runs all stages and
  returns a report, for that username, whose pattern profile is \<^verbatim>\<open>short\<close>.
\<close>

theorem empty_username_not_rejected:
  assumes "wf_platforms (platforms self)"
  shows "\<exists>report brain w'.
     orchestrate_investigation self [] w = (Inr report, w') \<and>
     map_of report ''username'' = Some (PStr []) \<and>
     map_of report ''brain_analysis'' = Some (PDict brain) \<and>
     map_of brain ''pattern_type'' = Some (PStr ''short'')"
proof -
  from orchestrate_investigation_result [OF assms, of "[]" w]
  obtain oid brain scan api final dur ts w' where
    r: "orchestrate_investigation self [] w =
       (Inr [(''operation_id'', PStr oid),
             (''username'', PStr []),
             (''brain_analysis'', PDict brain),
             (''scan_results'', PDict scan),
             (''api_intelligence'', PDict api),
             (''final_analysis'', PDict final),
             (''total_duration'', PFloat dur),
             (''timestamp'', PStr ts)], w')"
    and k: "map_of brain ''pattern_type'' = Some (PStr (pattern_type []))"
    by auto
  show ?thesis
    unfolding r using k by (simp add: pattern_type_empty)
qed

text \<open>The configured system during an outage.\<close>

theorem empty_username_not_rejected_witness:
  "wf_platforms (platforms (init_system outage)) \<and>
   (\<exists>report brain w'.
      orchestrate_investigation (init_system outage) [] test_world = (Inr report, w') \<and>
      map_of report ''username'' = Some (PStr []) \<and>
      map_of report ''brain_analysis'' = Some (PDict brain) \<and>
      map_of brain ''pattern_type'' = Some (PStr ''short''))"
proof -
  have wf: "wf_platforms (platforms (init_system outage))"
    by (simp add: wf_platforms_def init_system_def url_template_def)
  show ?thesis
    using wf empty_username_not_rejected [OF wf, of test_world]
    by auto
qed

end
